theory Spec2Isabelle
  imports Main "HOL-Library.Sublist"
begin

section \<open>Text, characters and the string operations the tokenizer uses\<close>

text \<open>
  The tokenizer of \<^verbatim>\<open>NLP Lab/sentence_tokenizer_Regex.py\<close> works on Python 3 \<^verbatim>\<open>str\<close>
  values: sequences of Unicode code points. A code point is a natural number, a text is a
  list of code points, and \<open>ustr\<close> reads an ASCII literal as a text.
\<close>

type_synonym cp = nat
type_synonym str = "cp list"

definition ustr :: "string \<Rightarrow> str" where
  "ustr s = map of_char s"

text \<open>
  White space is what \<^verbatim>\<open>str.isspace\<close>, \<^verbatim>\<open>str.strip\<close>, \<^verbatim>\<open>str.split\<close> and the
  pattern \<^verbatim>\<open>\s\<close> of a \<^verbatim>\<open>str\<close> pattern agree on.
\<close>

definition is_space :: "cp \<Rightarrow> bool" where
  "is_space c \<longleftrightarrow>
     (0x09 \<le> c \<and> c \<le> 0x0D) \<or> (0x1C \<le> c \<and> c \<le> 0x20) \<or> c = 0x85 \<or> c = 0xA0 \<or>
     c = 0x1680 \<or> (0x2000 \<le> c \<and> c \<le> 0x200A) \<or> c = 0x2028 \<or> c = 0x2029 \<or>
     c = 0x202F \<or> c = 0x205F \<or> c = 0x3000"

text \<open>
  \<^verbatim>\<open>\d\<close> of a \<^verbatim>\<open>str\<close> pattern matches the code points for which \<^verbatim>\<open>str.isdecimal\<close> holds,
  and \<^verbatim>\<open>\w\<close> those for which \<^verbatim>\<open>str.isalnum\<close> holds, and the underscore. Both come from
  the Unicode character database of the interpreter; the tables below are those of
  Unicode 14.0.0 (CPython 3.11), as ranges of code points from U+0080 on. Basic Latin is
  written out in \<open>is_digit\<close> and \<open>is_alnum\<close>.
\<close>

fun in_ranges :: "(cp \<times> cp) list \<Rightarrow> cp \<Rightarrow> bool" where
  "in_ranges [] c = False"
| "in_ranges ((lo, hi) # rs) c = (lo \<le> c \<and> c \<le> hi \<or> in_ranges rs c)"

definition decimal_ranges :: "(cp \<times> cp) list" where
  "decimal_ranges =
    [(0x0660, 0x0669), (0x06F0, 0x06F9), (0x07C0, 0x07C9), (0x0966, 0x096F),
     (0x09E6, 0x09EF), (0x0A66, 0x0A6F), (0x0AE6, 0x0AEF), (0x0B66, 0x0B6F),
     (0x0BE6, 0x0BEF), (0x0C66, 0x0C6F), (0x0CE6, 0x0CEF), (0x0D66, 0x0D6F),
     (0x0DE6, 0x0DEF), (0x0E50, 0x0E59), (0x0ED0, 0x0ED9), (0x0F20, 0x0F29),
     (0x1040, 0x1049), (0x1090, 0x1099), (0x17E0, 0x17E9), (0x1810, 0x1819),
     (0x1946, 0x194F), (0x19D0, 0x19D9), (0x1A80, 0x1A89), (0x1A90, 0x1A99),
     (0x1B50, 0x1B59), (0x1BB0, 0x1BB9), (0x1C40, 0x1C49), (0x1C50, 0x1C59),
     (0xA620, 0xA629), (0xA8D0, 0xA8D9), (0xA900, 0xA909), (0xA9D0, 0xA9D9),
     (0xA9F0, 0xA9F9), (0xAA50, 0xAA59), (0xABF0, 0xABF9), (0xFF10, 0xFF19),
     (0x104A0, 0x104A9), (0x10D30, 0x10D39), (0x11066, 0x1106F), (0x110F0, 0x110F9),
     (0x11136, 0x1113F), (0x111D0, 0x111D9), (0x112F0, 0x112F9), (0x11450, 0x11459),
     (0x114D0, 0x114D9), (0x11650, 0x11659), (0x116C0, 0x116C9), (0x11730, 0x11739),
     (0x118E0, 0x118E9), (0x11950, 0x11959), (0x11C50, 0x11C59), (0x11D50, 0x11D59),
     (0x11DA0, 0x11DA9), (0x16A60, 0x16A69), (0x16AC0, 0x16AC9), (0x16B50, 0x16B59),
     (0x1D7CE, 0x1D7FF), (0x1E140, 0x1E149), (0x1E2F0, 0x1E2F9), (0x1E950, 0x1E959),
     (0x1FBF0, 0x1FBF9)]"

definition alnum_ranges :: "(cp \<times> cp) list" where
  "alnum_ranges =
    [(0x00AA, 0x00AA), (0x00B2, 0x00B3), (0x00B5, 0x00B5), (0x00B9, 0x00BA),
     (0x00BC, 0x00BE), (0x00C0, 0x00D6), (0x00D8, 0x00F6), (0x00F8, 0x02C1),
     (0x02C6, 0x02D1), (0x02E0, 0x02E4), (0x02EC, 0x02EC), (0x02EE, 0x02EE),
     (0x0370, 0x0374), (0x0376, 0x0377), (0x037A, 0x037D), (0x037F, 0x037F),
     (0x0386, 0x0386), (0x0388, 0x038A), (0x038C, 0x038C), (0x038E, 0x03A1),
     (0x03A3, 0x03F5), (0x03F7, 0x0481), (0x048A, 0x052F), (0x0531, 0x0556),
     (0x0559, 0x0559), (0x0560, 0x0588), (0x05D0, 0x05EA), (0x05EF, 0x05F2),
     (0x0620, 0x064A), (0x0660, 0x0669), (0x066E, 0x066F), (0x0671, 0x06D3),
     (0x06D5, 0x06D5), (0x06E5, 0x06E6), (0x06EE, 0x06FC), (0x06FF, 0x06FF),
     (0x0710, 0x0710), (0x0712, 0x072F), (0x074D, 0x07A5), (0x07B1, 0x07B1),
     (0x07C0, 0x07EA), (0x07F4, 0x07F5), (0x07FA, 0x07FA), (0x0800, 0x0815),
     (0x081A, 0x081A), (0x0824, 0x0824), (0x0828, 0x0828), (0x0840, 0x0858),
     (0x0860, 0x086A), (0x0870, 0x0887), (0x0889, 0x088E), (0x08A0, 0x08C9),
     (0x0904, 0x0939), (0x093D, 0x093D), (0x0950, 0x0950), (0x0958, 0x0961),
     (0x0966, 0x096F), (0x0971, 0x0980), (0x0985, 0x098C), (0x098F, 0x0990),
     (0x0993, 0x09A8), (0x09AA, 0x09B0), (0x09B2, 0x09B2), (0x09B6, 0x09B9),
     (0x09BD, 0x09BD), (0x09CE, 0x09CE), (0x09DC, 0x09DD), (0x09DF, 0x09E1),
     (0x09E6, 0x09F1), (0x09F4, 0x09F9), (0x09FC, 0x09FC), (0x0A05, 0x0A0A),
     (0x0A0F, 0x0A10), (0x0A13, 0x0A28), (0x0A2A, 0x0A30), (0x0A32, 0x0A33),
     (0x0A35, 0x0A36), (0x0A38, 0x0A39), (0x0A59, 0x0A5C), (0x0A5E, 0x0A5E),
     (0x0A66, 0x0A6F), (0x0A72, 0x0A74), (0x0A85, 0x0A8D), (0x0A8F, 0x0A91),
     (0x0A93, 0x0AA8), (0x0AAA, 0x0AB0), (0x0AB2, 0x0AB3), (0x0AB5, 0x0AB9),
     (0x0ABD, 0x0ABD), (0x0AD0, 0x0AD0), (0x0AE0, 0x0AE1), (0x0AE6, 0x0AEF),
     (0x0AF9, 0x0AF9), (0x0B05, 0x0B0C), (0x0B0F, 0x0B10), (0x0B13, 0x0B28),
     (0x0B2A, 0x0B30), (0x0B32, 0x0B33), (0x0B35, 0x0B39), (0x0B3D, 0x0B3D),
     (0x0B5C, 0x0B5D), (0x0B5F, 0x0B61), (0x0B66, 0x0B6F), (0x0B71, 0x0B77),
     (0x0B83, 0x0B83), (0x0B85, 0x0B8A), (0x0B8E, 0x0B90), (0x0B92, 0x0B95),
     (0x0B99, 0x0B9A), (0x0B9C, 0x0B9C), (0x0B9E, 0x0B9F), (0x0BA3, 0x0BA4),
     (0x0BA8, 0x0BAA), (0x0BAE, 0x0BB9), (0x0BD0, 0x0BD0), (0x0BE6, 0x0BF2),
     (0x0C05, 0x0C0C), (0x0C0E, 0x0C10), (0x0C12, 0x0C28), (0x0C2A, 0x0C39),
     (0x0C3D, 0x0C3D), (0x0C58, 0x0C5A), (0x0C5D, 0x0C5D), (0x0C60, 0x0C61),
     (0x0C66, 0x0C6F), (0x0C78, 0x0C7E), (0x0C80, 0x0C80), (0x0C85, 0x0C8C),
     (0x0C8E, 0x0C90), (0x0C92, 0x0CA8), (0x0CAA, 0x0CB3), (0x0CB5, 0x0CB9),
     (0x0CBD, 0x0CBD), (0x0CDD, 0x0CDE), (0x0CE0, 0x0CE1), (0x0CE6, 0x0CEF),
     (0x0CF1, 0x0CF2), (0x0D04, 0x0D0C), (0x0D0E, 0x0D10), (0x0D12, 0x0D3A),
     (0x0D3D, 0x0D3D), (0x0D4E, 0x0D4E), (0x0D54, 0x0D56), (0x0D58, 0x0D61),
     (0x0D66, 0x0D78), (0x0D7A, 0x0D7F), (0x0D85, 0x0D96), (0x0D9A, 0x0DB1),
     (0x0DB3, 0x0DBB), (0x0DBD, 0x0DBD), (0x0DC0, 0x0DC6), (0x0DE6, 0x0DEF),
     (0x0E01, 0x0E30), (0x0E32, 0x0E33), (0x0E40, 0x0E46), (0x0E50, 0x0E59),
     (0x0E81, 0x0E82), (0x0E84, 0x0E84), (0x0E86, 0x0E8A), (0x0E8C, 0x0EA3),
     (0x0EA5, 0x0EA5), (0x0EA7, 0x0EB0), (0x0EB2, 0x0EB3), (0x0EBD, 0x0EBD),
     (0x0EC0, 0x0EC4), (0x0EC6, 0x0EC6), (0x0ED0, 0x0ED9), (0x0EDC, 0x0EDF),
     (0x0F00, 0x0F00), (0x0F20, 0x0F33), (0x0F40, 0x0F47), (0x0F49, 0x0F6C),
     (0x0F88, 0x0F8C), (0x1000, 0x102A), (0x103F, 0x1049), (0x1050, 0x1055),
     (0x105A, 0x105D), (0x1061, 0x1061), (0x1065, 0x1066), (0x106E, 0x1070),
     (0x1075, 0x1081), (0x108E, 0x108E), (0x1090, 0x1099), (0x10A0, 0x10C5),
     (0x10C7, 0x10C7), (0x10CD, 0x10CD), (0x10D0, 0x10FA), (0x10FC, 0x1248),
     (0x124A, 0x124D), (0x1250, 0x1256), (0x1258, 0x1258), (0x125A, 0x125D),
     (0x1260, 0x1288), (0x128A, 0x128D), (0x1290, 0x12B0), (0x12B2, 0x12B5),
     (0x12B8, 0x12BE), (0x12C0, 0x12C0), (0x12C2, 0x12C5), (0x12C8, 0x12D6),
     (0x12D8, 0x1310), (0x1312, 0x1315), (0x1318, 0x135A), (0x1369, 0x137C),
     (0x1380, 0x138F), (0x13A0, 0x13F5), (0x13F8, 0x13FD), (0x1401, 0x166C),
     (0x166F, 0x167F), (0x1681, 0x169A), (0x16A0, 0x16EA), (0x16EE, 0x16F8),
     (0x1700, 0x1711), (0x171F, 0x1731), (0x1740, 0x1751), (0x1760, 0x176C),
     (0x176E, 0x1770), (0x1780, 0x17B3), (0x17D7, 0x17D7), (0x17DC, 0x17DC),
     (0x17E0, 0x17E9), (0x17F0, 0x17F9), (0x1810, 0x1819), (0x1820, 0x1878),
     (0x1880, 0x1884), (0x1887, 0x18A8), (0x18AA, 0x18AA), (0x18B0, 0x18F5),
     (0x1900, 0x191E), (0x1946, 0x196D), (0x1970, 0x1974), (0x1980, 0x19AB),
     (0x19B0, 0x19C9), (0x19D0, 0x19DA), (0x1A00, 0x1A16), (0x1A20, 0x1A54),
     (0x1A80, 0x1A89), (0x1A90, 0x1A99), (0x1AA7, 0x1AA7), (0x1B05, 0x1B33),
     (0x1B45, 0x1B4C), (0x1B50, 0x1B59), (0x1B83, 0x1BA0), (0x1BAE, 0x1BE5),
     (0x1C00, 0x1C23), (0x1C40, 0x1C49), (0x1C4D, 0x1C7D), (0x1C80, 0x1C88),
     (0x1C90, 0x1CBA), (0x1CBD, 0x1CBF), (0x1CE9, 0x1CEC), (0x1CEE, 0x1CF3),
     (0x1CF5, 0x1CF6), (0x1CFA, 0x1CFA), (0x1D00, 0x1DBF), (0x1E00, 0x1F15),
     (0x1F18, 0x1F1D), (0x1F20, 0x1F45), (0x1F48, 0x1F4D), (0x1F50, 0x1F57),
     (0x1F59, 0x1F59), (0x1F5B, 0x1F5B), (0x1F5D, 0x1F5D), (0x1F5F, 0x1F7D),
     (0x1F80, 0x1FB4), (0x1FB6, 0x1FBC), (0x1FBE, 0x1FBE), (0x1FC2, 0x1FC4),
     (0x1FC6, 0x1FCC), (0x1FD0, 0x1FD3), (0x1FD6, 0x1FDB), (0x1FE0, 0x1FEC),
     (0x1FF2, 0x1FF4), (0x1FF6, 0x1FFC), (0x2070, 0x2071), (0x2074, 0x2079),
     (0x207F, 0x2089), (0x2090, 0x209C), (0x2102, 0x2102), (0x2107, 0x2107),
     (0x210A, 0x2113), (0x2115, 0x2115), (0x2119, 0x211D), (0x2124, 0x2124),
     (0x2126, 0x2126), (0x2128, 0x2128), (0x212A, 0x212D), (0x212F, 0x2139),
     (0x213C, 0x213F), (0x2145, 0x2149), (0x214E, 0x214E), (0x2150, 0x2189),
     (0x2460, 0x249B), (0x24EA, 0x24FF), (0x2776, 0x2793), (0x2C00, 0x2CE4),
     (0x2CEB, 0x2CEE), (0x2CF2, 0x2CF3), (0x2CFD, 0x2CFD), (0x2D00, 0x2D25),
     (0x2D27, 0x2D27), (0x2D2D, 0x2D2D), (0x2D30, 0x2D67), (0x2D6F, 0x2D6F),
     (0x2D80, 0x2D96), (0x2DA0, 0x2DA6), (0x2DA8, 0x2DAE), (0x2DB0, 0x2DB6),
     (0x2DB8, 0x2DBE), (0x2DC0, 0x2DC6), (0x2DC8, 0x2DCE), (0x2DD0, 0x2DD6),
     (0x2DD8, 0x2DDE), (0x2E2F, 0x2E2F), (0x3005, 0x3007), (0x3021, 0x3029),
     (0x3031, 0x3035), (0x3038, 0x303C), (0x3041, 0x3096), (0x309D, 0x309F),
     (0x30A1, 0x30FA), (0x30FC, 0x30FF), (0x3105, 0x312F), (0x3131, 0x318E),
     (0x3192, 0x3195), (0x31A0, 0x31BF), (0x31F0, 0x31FF), (0x3220, 0x3229),
     (0x3248, 0x324F), (0x3251, 0x325F), (0x3280, 0x3289), (0x32B1, 0x32BF),
     (0x3400, 0x4DBF), (0x4E00, 0xA48C), (0xA4D0, 0xA4FD), (0xA500, 0xA60C),
     (0xA610, 0xA62B), (0xA640, 0xA66E), (0xA67F, 0xA69D), (0xA6A0, 0xA6EF),
     (0xA717, 0xA71F), (0xA722, 0xA788), (0xA78B, 0xA7CA), (0xA7D0, 0xA7D1),
     (0xA7D3, 0xA7D3), (0xA7D5, 0xA7D9), (0xA7F2, 0xA801), (0xA803, 0xA805),
     (0xA807, 0xA80A), (0xA80C, 0xA822), (0xA830, 0xA835), (0xA840, 0xA873),
     (0xA882, 0xA8B3), (0xA8D0, 0xA8D9), (0xA8F2, 0xA8F7), (0xA8FB, 0xA8FB),
     (0xA8FD, 0xA8FE), (0xA900, 0xA925), (0xA930, 0xA946), (0xA960, 0xA97C),
     (0xA984, 0xA9B2), (0xA9CF, 0xA9D9), (0xA9E0, 0xA9E4), (0xA9E6, 0xA9FE),
     (0xAA00, 0xAA28), (0xAA40, 0xAA42), (0xAA44, 0xAA4B), (0xAA50, 0xAA59),
     (0xAA60, 0xAA76), (0xAA7A, 0xAA7A), (0xAA7E, 0xAAAF), (0xAAB1, 0xAAB1),
     (0xAAB5, 0xAAB6), (0xAAB9, 0xAABD), (0xAAC0, 0xAAC0), (0xAAC2, 0xAAC2),
     (0xAADB, 0xAADD), (0xAAE0, 0xAAEA), (0xAAF2, 0xAAF4), (0xAB01, 0xAB06),
     (0xAB09, 0xAB0E), (0xAB11, 0xAB16), (0xAB20, 0xAB26), (0xAB28, 0xAB2E),
     (0xAB30, 0xAB5A), (0xAB5C, 0xAB69), (0xAB70, 0xABE2), (0xABF0, 0xABF9),
     (0xAC00, 0xD7A3), (0xD7B0, 0xD7C6), (0xD7CB, 0xD7FB), (0xF900, 0xFA6D),
     (0xFA70, 0xFAD9), (0xFB00, 0xFB06), (0xFB13, 0xFB17), (0xFB1D, 0xFB1D),
     (0xFB1F, 0xFB28), (0xFB2A, 0xFB36), (0xFB38, 0xFB3C), (0xFB3E, 0xFB3E),
     (0xFB40, 0xFB41), (0xFB43, 0xFB44), (0xFB46, 0xFBB1), (0xFBD3, 0xFD3D),
     (0xFD50, 0xFD8F), (0xFD92, 0xFDC7), (0xFDF0, 0xFDFB), (0xFE70, 0xFE74),
     (0xFE76, 0xFEFC), (0xFF10, 0xFF19), (0xFF21, 0xFF3A), (0xFF41, 0xFF5A),
     (0xFF66, 0xFFBE), (0xFFC2, 0xFFC7), (0xFFCA, 0xFFCF), (0xFFD2, 0xFFD7),
     (0xFFDA, 0xFFDC), (0x10000, 0x1000B), (0x1000D, 0x10026), (0x10028, 0x1003A),
     (0x1003C, 0x1003D), (0x1003F, 0x1004D), (0x10050, 0x1005D), (0x10080, 0x100FA),
     (0x10107, 0x10133), (0x10140, 0x10178), (0x1018A, 0x1018B), (0x10280, 0x1029C),
     (0x102A0, 0x102D0), (0x102E1, 0x102FB), (0x10300, 0x10323), (0x1032D, 0x1034A),
     (0x10350, 0x10375), (0x10380, 0x1039D), (0x103A0, 0x103C3), (0x103C8, 0x103CF),
     (0x103D1, 0x103D5), (0x10400, 0x1049D), (0x104A0, 0x104A9), (0x104B0, 0x104D3),
     (0x104D8, 0x104FB), (0x10500, 0x10527), (0x10530, 0x10563), (0x10570, 0x1057A),
     (0x1057C, 0x1058A), (0x1058C, 0x10592), (0x10594, 0x10595), (0x10597, 0x105A1),
     (0x105A3, 0x105B1), (0x105B3, 0x105B9), (0x105BB, 0x105BC), (0x10600, 0x10736),
     (0x10740, 0x10755), (0x10760, 0x10767), (0x10780, 0x10785), (0x10787, 0x107B0),
     (0x107B2, 0x107BA), (0x10800, 0x10805), (0x10808, 0x10808), (0x1080A, 0x10835),
     (0x10837, 0x10838), (0x1083C, 0x1083C), (0x1083F, 0x10855), (0x10858, 0x10876),
     (0x10879, 0x1089E), (0x108A7, 0x108AF), (0x108E0, 0x108F2), (0x108F4, 0x108F5),
     (0x108FB, 0x1091B), (0x10920, 0x10939), (0x10980, 0x109B7), (0x109BC, 0x109CF),
     (0x109D2, 0x10A00), (0x10A10, 0x10A13), (0x10A15, 0x10A17), (0x10A19, 0x10A35),
     (0x10A40, 0x10A48), (0x10A60, 0x10A7E), (0x10A80, 0x10A9F), (0x10AC0, 0x10AC7),
     (0x10AC9, 0x10AE4), (0x10AEB, 0x10AEF), (0x10B00, 0x10B35), (0x10B40, 0x10B55),
     (0x10B58, 0x10B72), (0x10B78, 0x10B91), (0x10BA9, 0x10BAF), (0x10C00, 0x10C48),
     (0x10C80, 0x10CB2), (0x10CC0, 0x10CF2), (0x10CFA, 0x10D23), (0x10D30, 0x10D39),
     (0x10E60, 0x10E7E), (0x10E80, 0x10EA9), (0x10EB0, 0x10EB1), (0x10F00, 0x10F27),
     (0x10F30, 0x10F45), (0x10F51, 0x10F54), (0x10F70, 0x10F81), (0x10FB0, 0x10FCB),
     (0x10FE0, 0x10FF6), (0x11003, 0x11037), (0x11052, 0x1106F), (0x11071, 0x11072),
     (0x11075, 0x11075), (0x11083, 0x110AF), (0x110D0, 0x110E8), (0x110F0, 0x110F9),
     (0x11103, 0x11126), (0x11136, 0x1113F), (0x11144, 0x11144), (0x11147, 0x11147),
     (0x11150, 0x11172), (0x11176, 0x11176), (0x11183, 0x111B2), (0x111C1, 0x111C4),
     (0x111D0, 0x111DA), (0x111DC, 0x111DC), (0x111E1, 0x111F4), (0x11200, 0x11211),
     (0x11213, 0x1122B), (0x11280, 0x11286), (0x11288, 0x11288), (0x1128A, 0x1128D),
     (0x1128F, 0x1129D), (0x1129F, 0x112A8), (0x112B0, 0x112DE), (0x112F0, 0x112F9),
     (0x11305, 0x1130C), (0x1130F, 0x11310), (0x11313, 0x11328), (0x1132A, 0x11330),
     (0x11332, 0x11333), (0x11335, 0x11339), (0x1133D, 0x1133D), (0x11350, 0x11350),
     (0x1135D, 0x11361), (0x11400, 0x11434), (0x11447, 0x1144A), (0x11450, 0x11459),
     (0x1145F, 0x11461), (0x11480, 0x114AF), (0x114C4, 0x114C5), (0x114C7, 0x114C7),
     (0x114D0, 0x114D9), (0x11580, 0x115AE), (0x115D8, 0x115DB), (0x11600, 0x1162F),
     (0x11644, 0x11644), (0x11650, 0x11659), (0x11680, 0x116AA), (0x116B8, 0x116B8),
     (0x116C0, 0x116C9), (0x11700, 0x1171A), (0x11730, 0x1173B), (0x11740, 0x11746),
     (0x11800, 0x1182B), (0x118A0, 0x118F2), (0x118FF, 0x11906), (0x11909, 0x11909),
     (0x1190C, 0x11913), (0x11915, 0x11916), (0x11918, 0x1192F), (0x1193F, 0x1193F),
     (0x11941, 0x11941), (0x11950, 0x11959), (0x119A0, 0x119A7), (0x119AA, 0x119D0),
     (0x119E1, 0x119E1), (0x119E3, 0x119E3), (0x11A00, 0x11A00), (0x11A0B, 0x11A32),
     (0x11A3A, 0x11A3A), (0x11A50, 0x11A50), (0x11A5C, 0x11A89), (0x11A9D, 0x11A9D),
     (0x11AB0, 0x11AF8), (0x11C00, 0x11C08), (0x11C0A, 0x11C2E), (0x11C40, 0x11C40),
     (0x11C50, 0x11C6C), (0x11C72, 0x11C8F), (0x11D00, 0x11D06), (0x11D08, 0x11D09),
     (0x11D0B, 0x11D30), (0x11D46, 0x11D46), (0x11D50, 0x11D59), (0x11D60, 0x11D65),
     (0x11D67, 0x11D68), (0x11D6A, 0x11D89), (0x11D98, 0x11D98), (0x11DA0, 0x11DA9),
     (0x11EE0, 0x11EF2), (0x11FB0, 0x11FB0), (0x11FC0, 0x11FD4), (0x12000, 0x12399),
     (0x12400, 0x1246E), (0x12480, 0x12543), (0x12F90, 0x12FF0), (0x13000, 0x1342E),
     (0x14400, 0x14646), (0x16800, 0x16A38), (0x16A40, 0x16A5E), (0x16A60, 0x16A69),
     (0x16A70, 0x16ABE), (0x16AC0, 0x16AC9), (0x16AD0, 0x16AED), (0x16B00, 0x16B2F),
     (0x16B40, 0x16B43), (0x16B50, 0x16B59), (0x16B5B, 0x16B61), (0x16B63, 0x16B77),
     (0x16B7D, 0x16B8F), (0x16E40, 0x16E96), (0x16F00, 0x16F4A), (0x16F50, 0x16F50),
     (0x16F93, 0x16F9F), (0x16FE0, 0x16FE1), (0x16FE3, 0x16FE3), (0x17000, 0x187F7),
     (0x18800, 0x18CD5), (0x18D00, 0x18D08), (0x1AFF0, 0x1AFF3), (0x1AFF5, 0x1AFFB),
     (0x1AFFD, 0x1AFFE), (0x1B000, 0x1B122), (0x1B150, 0x1B152), (0x1B164, 0x1B167),
     (0x1B170, 0x1B2FB), (0x1BC00, 0x1BC6A), (0x1BC70, 0x1BC7C), (0x1BC80, 0x1BC88),
     (0x1BC90, 0x1BC99), (0x1D2E0, 0x1D2F3), (0x1D360, 0x1D378), (0x1D400, 0x1D454),
     (0x1D456, 0x1D49C), (0x1D49E, 0x1D49F), (0x1D4A2, 0x1D4A2), (0x1D4A5, 0x1D4A6),
     (0x1D4A9, 0x1D4AC), (0x1D4AE, 0x1D4B9), (0x1D4BB, 0x1D4BB), (0x1D4BD, 0x1D4C3),
     (0x1D4C5, 0x1D505), (0x1D507, 0x1D50A), (0x1D50D, 0x1D514), (0x1D516, 0x1D51C),
     (0x1D51E, 0x1D539), (0x1D53B, 0x1D53E), (0x1D540, 0x1D544), (0x1D546, 0x1D546),
     (0x1D54A, 0x1D550), (0x1D552, 0x1D6A5), (0x1D6A8, 0x1D6C0), (0x1D6C2, 0x1D6DA),
     (0x1D6DC, 0x1D6FA), (0x1D6FC, 0x1D714), (0x1D716, 0x1D734), (0x1D736, 0x1D74E),
     (0x1D750, 0x1D76E), (0x1D770, 0x1D788), (0x1D78A, 0x1D7A8), (0x1D7AA, 0x1D7C2),
     (0x1D7C4, 0x1D7CB), (0x1D7CE, 0x1D7FF), (0x1DF00, 0x1DF1E), (0x1E100, 0x1E12C),
     (0x1E137, 0x1E13D), (0x1E140, 0x1E149), (0x1E14E, 0x1E14E), (0x1E290, 0x1E2AD),
     (0x1E2C0, 0x1E2EB), (0x1E2F0, 0x1E2F9), (0x1E7E0, 0x1E7E6), (0x1E7E8, 0x1E7EB),
     (0x1E7ED, 0x1E7EE), (0x1E7F0, 0x1E7FE), (0x1E800, 0x1E8C4), (0x1E8C7, 0x1E8CF),
     (0x1E900, 0x1E943), (0x1E94B, 0x1E94B), (0x1E950, 0x1E959), (0x1EC71, 0x1ECAB),
     (0x1ECAD, 0x1ECAF), (0x1ECB1, 0x1ECB4), (0x1ED01, 0x1ED2D), (0x1ED2F, 0x1ED3D),
     (0x1EE00, 0x1EE03), (0x1EE05, 0x1EE1F), (0x1EE21, 0x1EE22), (0x1EE24, 0x1EE24),
     (0x1EE27, 0x1EE27), (0x1EE29, 0x1EE32), (0x1EE34, 0x1EE37), (0x1EE39, 0x1EE39),
     (0x1EE3B, 0x1EE3B), (0x1EE42, 0x1EE42), (0x1EE47, 0x1EE47), (0x1EE49, 0x1EE49),
     (0x1EE4B, 0x1EE4B), (0x1EE4D, 0x1EE4F), (0x1EE51, 0x1EE52), (0x1EE54, 0x1EE54),
     (0x1EE57, 0x1EE57), (0x1EE59, 0x1EE59), (0x1EE5B, 0x1EE5B), (0x1EE5D, 0x1EE5D),
     (0x1EE5F, 0x1EE5F), (0x1EE61, 0x1EE62), (0x1EE64, 0x1EE64), (0x1EE67, 0x1EE6A),
     (0x1EE6C, 0x1EE72), (0x1EE74, 0x1EE77), (0x1EE79, 0x1EE7C), (0x1EE7E, 0x1EE7E),
     (0x1EE80, 0x1EE89), (0x1EE8B, 0x1EE9B), (0x1EEA1, 0x1EEA3), (0x1EEA5, 0x1EEA9),
     (0x1EEAB, 0x1EEBB), (0x1F100, 0x1F10C), (0x1FBF0, 0x1FBF9), (0x20000, 0x2A6DF),
     (0x2A700, 0x2B738), (0x2B740, 0x2B81D), (0x2B820, 0x2CEA1), (0x2CEB0, 0x2EBE0),
     (0x2F800, 0x2FA1D), (0x30000, 0x3134A)]"

definition is_digit :: "cp \<Rightarrow> bool" where
  "is_digit c \<longleftrightarrow>
     (if c < 0x80 then 0x30 \<le> c \<and> c \<le> 0x39 else in_ranges decimal_ranges c)"

definition is_alnum :: "cp \<Rightarrow> bool" where
  "is_alnum c \<longleftrightarrow>
     (if c < 0x80
      then (0x30 \<le> c \<and> c \<le> 0x39) \<or> (0x41 \<le> c \<and> c \<le> 0x5A) \<or> (0x61 \<le> c \<and> c \<le> 0x7A)
      else in_ranges alnum_ranges c)"

definition is_word :: "cp \<Rightarrow> bool" where
  "is_word c \<longleftrightarrow> is_alnum c \<or> c = 0x5F"

text \<open>\<^verbatim>\<open>str.strip()\<close>, \<^verbatim>\<open>str.rstrip()\<close> and \<^verbatim>\<open>len(str.split())\<close>.\<close>

definition lstrip :: "str \<Rightarrow> str" where
  "lstrip s = dropWhile is_space s"

definition rstrip :: "str \<Rightarrow> str" where
  "rstrip s = rev (dropWhile is_space (rev s))"

definition strip :: "str \<Rightarrow> str" where
  "strip s = rstrip (lstrip s)"

fun split_acc :: "str \<Rightarrow> str \<Rightarrow> str list" where
  "split_acc [] cur = (if cur = [] then [] else [cur])"
| "split_acc (c # cs) cur =
     (if is_space c then (if cur = [] then split_acc cs [] else cur # split_acc cs [])
      else split_acc cs (cur @ [c]))"

definition split_ws :: "str \<Rightarrow> str list" where
  "split_ws s = split_acc s []"

text \<open>
  \<^verbatim>\<open>str.replace(old, new)\<close>: every occurrence of \<open>old\<close>, leftmost first and without
  overlap. With an empty \<open>old\<close> Python puts \<open>new\<close> before every character and at the end.
\<close>

function repl :: "str \<Rightarrow> str \<Rightarrow> str \<Rightarrow> str" where
  "repl old new [] = []"
| "repl old new (c # cs) =
     (if old \<noteq> [] \<and> take (length old) (c # cs) = old
      then new @ repl old new (drop (length old) (c # cs))
      else c # repl old new cs)"
  by pat_completeness auto
termination
  by (relation "measure (\<lambda>(old, new, s). length s)") (auto simp: neq_Nil_conv)

definition replace :: "str \<Rightarrow> str \<Rightarrow> str \<Rightarrow> str" where
  "replace old new s =
     (if old = [] then new @ concat (map (\<lambda>c. c # new) s) else repl old new s)"

text \<open>\<^verbatim>\<open>str(n)\<close> for a non-negative integer: its decimal digits.\<close>

fun str_nat :: "nat \<Rightarrow> str" where
  "str_nat n = (if n < 10 then [0x30 + n] else str_nat (n div 10) @ [0x30 + n mod 10])"

declare str_nat.simps [simp del]

section \<open>Regular expressions with Python's backtracking order\<close>

text \<open>
  The patterns of the program use literals, character sets, concatenation, alternation
  and greedy repetition. \<open>ms r s\<close> lists what is left of \<open>s\<close> after each way of matching
  \<open>r\<close> at the start of \<open>s\<close>, in the order in which the backtracking matcher of \<^verbatim>\<open>re\<close>
  tries them: the left alternative first, the longer repetition first. The match that
  \<^verbatim>\<open>re\<close> reports is the first of the list.

  A repetition without upper bound gets as bound its lower bound plus the length of the
  text: every loop body of the program's patterns consumes a character, so no match has
  more iterations.
\<close>

datatype citem = Ch cp | Range cp cp | ClsW | ClsD | ClsS

fun citem_has :: "citem \<Rightarrow> cp \<Rightarrow> bool" where
  "citem_has (Ch x) c = (c = x)"
| "citem_has (Range lo hi) c = (lo \<le> c \<and> c \<le> hi)"
| "citem_has ClsW c = is_word c"
| "citem_has ClsD c = is_digit c"
| "citem_has ClsS c = is_space c"

fun cset_has :: "citem list \<Rightarrow> cp \<Rightarrow> bool" where
  "cset_has [] c = False"
| "cset_has (i # is) c = (citem_has i c \<or> cset_has is c)"

datatype rx =
    Eps
  | One "citem list"
  | NotOne "citem list"
  | Seq rx rx
  | Alt rx rx
  | Rep nat "nat option" rx

fun rep :: "(str \<Rightarrow> str list) \<Rightarrow> nat \<Rightarrow> nat \<Rightarrow> str \<Rightarrow> str list" where
  "rep m lo 0 s = (if lo = 0 then [s] else [])"
| "rep m lo (Suc h) s =
     concat (map (rep m (lo - 1) h) (m s)) @ (if lo = 0 then [s] else [])"

primrec ms :: "rx \<Rightarrow> str \<Rightarrow> str list" where
  "ms Eps s = [s]"
| "ms (One cs) s = (case s of [] \<Rightarrow> [] | c # r \<Rightarrow> if cset_has cs c then [r] else [])"
| "ms (NotOne cs) s = (case s of [] \<Rightarrow> [] | c # r \<Rightarrow> if cset_has cs c then [] else [r])"
| "ms (Seq a b) s = concat (map (ms b) (ms a s))"
| "ms (Alt a b) s = ms a s @ ms b s"
| "ms (Rep lo hi a) s =
     rep (ms a) lo (case hi of None \<Rightarrow> lo + length s | Some h \<Rightarrow> h) s"

definition chr :: "cp \<Rightarrow> rx" where
  "chr c = One [Ch c]"

definition Plus :: "rx \<Rightarrow> rx" where
  "Plus r = Rep 1 None r"

definition Star :: "rx \<Rightarrow> rx" where
  "Star r = Rep 0 None r"

definition Opt :: "rx \<Rightarrow> rx" where
  "Opt r = Rep 0 (Some 1) r"

fun seqs :: "rx list \<Rightarrow> rx" where
  "seqs [] = Eps"
| "seqs [r] = r"
| "seqs (r # rs) = Seq r (seqs rs)"

definition lit :: "str \<Rightarrow> rx" where
  "lit s = seqs (map chr s)"

fun alts :: "rx list \<Rightarrow> rx" where
  "alts [] = Eps"
| "alts [r] = r"
| "alts (r # rs) = Alt r (alts rs)"

section \<open>The tokenizer\<close>

subsection \<open>Patterns (\<^verbatim>\<open>__init__\<close>)\<close>

text \<open>
  \<^verbatim>\<open>'url': r'https?://[^\s]+\.\w+'\<close>,
  \<^verbatim>\<open>'email': r'[\w\.-]+@(\w\.)+\w+'\<close>,
  \<^verbatim>\<open>'ellipsis': r'\.\.\.'\<close>,
  \<^verbatim>\<open>'num_dot': r'(?:\d+|[\u0AE6-\u0AEF]+)\.'\<close>,
  \<^verbatim>\<open>'guj_matra_dot': r'([\u0A80-\u0AFF]+[\u0ABE-\u0ACC\u0A81-\u0A83\u0ACD]+)\.'\<close>.
\<close>

definition dot :: rx where
  "dot = chr 0x2E"

definition url_pattern :: rx where
  "url_pattern =
     seqs [lit (ustr ''http''), Opt (chr 0x73), lit (ustr ''://''),
           Plus (NotOne [ClsS]), dot, Plus (One [ClsW])]"

definition email_pattern :: rx where
  "email_pattern =
     seqs [Plus (One [ClsW, Ch 0x2E, Ch 0x2D]), chr 0x40,
           Plus (Seq (One [ClsW]) dot), Plus (One [ClsW])]"

definition ellipsis_pattern :: rx where
  "ellipsis_pattern = seqs [dot, dot, dot]"

definition num_dot_pattern :: rx where
  "num_dot_pattern =
     Seq (Alt (Plus (One [ClsD])) (Plus (One [Range 0x0AE6 0x0AEF]))) dot"

definition guj_matra_dot_pattern :: rx where
  "guj_matra_dot_pattern =
     Seq (Seq (Plus (One [Range 0x0A80 0x0AFF]))
              (Plus (One [Range 0x0ABE 0x0ACC, Range 0x0A81 0x0A83, Ch 0x0ACD])))
         dot"

text \<open>
  \<^verbatim>\<open>'date': r'\d{1,2}[-/]\d{1,2}[-/]\d{2,4}|\d{1,2}\s*(M1|...|M12)+\s*\d{2,4}'\<close>, where
  \<^verbatim>\<open>M1\<close> to \<^verbatim>\<open>M12\<close> are the Gujarati month names, January to December.
\<close>

definition months :: "str list" where
  "months =
    [[0x0A9C, 0x0ABE, 0x0AA8, 0x0ACD, 0x0AAF, 0x0AC1, 0x0A86, 0x0AB0, 0x0AC0],
     [0x0AAB, 0x0AC7, 0x0AAC, 0x0ACD, 0x0AB0, 0x0AC1, 0x0A86, 0x0AB0, 0x0AC0],
     [0x0AAE, 0x0ABE, 0x0AB0, 0x0ACD, 0x0A9A],
     [0x0A8F, 0x0AAA, 0x0ACD, 0x0AB0, 0x0ABF, 0x0AB2],
     [0x0AAE, 0x0AC7],
     [0x0A9C, 0x0AC2, 0x0AA8],
     [0x0A9C, 0x0AC1, 0x0AB2, 0x0ABE, 0x0A88],
     [0x0A91, 0x0A97, 0x0AB8, 0x0ACD, 0x0A9F],
     [0x0AB8, 0x0AAA, 0x0ACD, 0x0A9F, 0x0AC7, 0x0AAE, 0x0ACD, 0x0AAC, 0x0AB0],
     [0x0A91, 0x0A95, 0x0ACD, 0x0A9F, 0x0ACB, 0x0AAC, 0x0AB0],
     [0x0AA8, 0x0AB5, 0x0AC7, 0x0AAE, 0x0ACD, 0x0AAC, 0x0AB0],
     [0x0AA1, 0x0ABF, 0x0AB8, 0x0AC7, 0x0AAE, 0x0ACD, 0x0AAC, 0x0AB0]]"

definition date_pattern :: rx where
  "date_pattern =
     Alt (seqs [Rep 1 (Some 2) (One [ClsD]), One [Ch 0x2D, Ch 0x2F],
                Rep 1 (Some 2) (One [ClsD]), One [Ch 0x2D, Ch 0x2F],
                Rep 2 (Some 4) (One [ClsD])])
         (seqs [Rep 1 (Some 2) (One [ClsD]), Star (One [ClsS]),
                Plus (alts (map lit months)), Star (One [ClsS]),
                Rep 2 (Some 4) (One [ClsD])])"

text \<open>
  \<^verbatim>\<open>self.abbreviations\<close>: fourteen Latin and nine Gujarati abbreviations, each a
  literal (its dots escaped), joined by \<^verbatim>\<open>|\<close> into one alternation in
  \<^verbatim>\<open>_protect_special_patterns\<close>.
\<close>

definition abbreviations :: "str list" where
  "abbreviations =
    [ustr ''Dr.'', ustr ''Mr.'', ustr ''Mrs.'', ustr ''Ms.'', ustr ''Prof.'', ustr ''Sr.'',
     ustr ''Jr.'', ustr ''St.'', ustr ''vs.'', ustr ''etc.'', ustr ''e.g.'', ustr ''i.e.'',
     ustr ''a.m.'', ustr ''p.m.'',
     [0x0A8F, 0x0AB2, 0x002E, 0x0AB8, 0x0AC0, 0x002E, 0x0AAC, 0x0AC0, 0x002E],
     [0x0AAA, 0x0AC0, 0x002E, 0x0A8F, 0x0AB8, 0x002E, 0x0A86, 0x0A87, 0x002E],
     [0x0AB6, 0x0ACD, 0x0AB0, 0x0AC0, 0x002E],
     [0x0AB6, 0x0ACD, 0x0AB0, 0x0AC0, 0x0AAE, 0x0AA4, 0x0AC0, 0x002E],
     [0x0A95, 0x0AC1, 0x0A82, 0x002E],
     [0x0AB6, 0x0ACD, 0x0AB0, 0x0AC0, 0x0AAE, 0x002E],
     [0x0AA1, 0x0AC9, 0x002E],
     [0x0AAA, 0x0ACD, 0x0AB0, 0x0ACB, 0x002E],
     [0x0AB8, 0x0ACD, 0x0AB5, 0x002E]]"

definition abbr_pattern :: rx where
  "abbr_pattern = alts (map lit abbreviations)"

text \<open>
  \<^verbatim>\<open>self.sentence_boundary_pattern = r'([\.!?D\u0964])\s+'\<close>, where \<^verbatim>\<open>D\<close> is the
  danda U+0964 itself, so that the set names it twice: a group of one punctuation
  character, then white space.
\<close>

definition boundary_group :: rx where
  "boundary_group = One [Ch 0x2E, Ch 0x21, Ch 0x3F, Ch 0x0964, Ch 0x0964]"

definition boundary_tail :: rx where
  "boundary_tail = Plus (One [ClsS])"

subsection \<open>The instance state and the placeholders\<close>

text \<open>
  The patterns never change after \<^verbatim>\<open>__init__\<close>; the one field that does is
  \<^verbatim>\<open>self.protected_items\<close>.
\<close>

record tokenizer =
  protected_items :: "str list"

definition new_tokenizer :: tokenizer where
  "new_tokenizer = \<lparr>protected_items = []\<rparr>"

definition placeholder :: "nat \<Rightarrow> str" where
  "placeholder idx = ustr ''__PROTECTED_'' @ str_nat idx @ ustr ''__''"

text \<open>
  \<^verbatim>\<open>_create_placeholder(self, match)\<close> appends the matched text to the store and
  returns the placeholder of its index.
\<close>

definition create_placeholder :: "tokenizer \<Rightarrow> str \<Rightarrow> str \<times> tokenizer" where
  "create_placeholder st m =
     (let st' = st\<lparr>protected_items := protected_items st @ [m]\<rparr>
      in (placeholder (length (protected_items st') - 1), st'))"

text \<open>
  \<^verbatim>\<open>re.sub(pattern, self._create_placeholder, text)\<close>: the text is scanned from the left;
  at the first position where the pattern matches, the match is replaced by what the
  callback returns and the scan goes on behind the match. No pattern of the program
  matches the empty string (\<open>patterns_consume\<close> and \<open>ms_consuming\<close> below), so a
  match always moves the scan forward; the scan steps over a match that would consume
  nothing as it steps over a position without a match.
\<close>

fun re_sub :: "rx \<Rightarrow> tokenizer \<Rightarrow> str \<Rightarrow> str \<times> tokenizer" where
  "re_sub r st [] = ([], st)"
| "re_sub r st (c # cs) =
     (case ms r (c # cs) of
        [] \<Rightarrow> (let (out, st') = re_sub r st cs in (c # out, st'))
      | rest # _ \<Rightarrow>
          if length rest \<le> length cs
          then (let (ph, st1) = create_placeholder st (take (Suc (length cs) - length rest) (c # cs));
                    (out, st2) = re_sub r st1 rest
                in (ph @ out, st2))
          else (let (out, st') = re_sub r st cs in (c # out, st')))"

text \<open>
  \<^verbatim>\<open>_protect_special_patterns\<close>: seven substitutions in this order, each on the text
  the one before it returned.
\<close>

definition protect_special_patterns :: "tokenizer \<Rightarrow> str \<Rightarrow> str \<times> tokenizer" where
  "protect_special_patterns st text0 =
     (let (text1, st1) = re_sub ellipsis_pattern st text0;
          (text2, st2) = re_sub url_pattern st1 text1;
          (text3, st3) = re_sub email_pattern st2 text2;
          (text4, st4) = re_sub date_pattern st3 text3;
          (text5, st5) = re_sub abbr_pattern st4 text4;
          (text6, st6) = re_sub num_dot_pattern st5 text5;
          (text7, st7) = re_sub guj_matra_dot_pattern st6 text6
      in (text7, st7))"

text \<open>
  \<^verbatim>\<open>_restore_protected_items\<close>: for every stored item, in the order of the store,
  \<^verbatim>\<open>text.replace\<close> of its placeholder by the item.
\<close>

fun restore_from :: "nat \<Rightarrow> str list \<Rightarrow> str \<Rightarrow> str" where
  "restore_from idx [] t = t"
| "restore_from idx (item # items) t =
     restore_from (Suc idx) items (replace (placeholder idx) item t)"

definition restore_protected_items :: "tokenizer \<Rightarrow> str \<Rightarrow> str" where
  "restore_protected_items st t = restore_from 0 (protected_items st) t"

subsection \<open>Splitting\<close>

text \<open>
  One match of \<^verbatim>\<open>(g)t\<close> at the start of \<open>s\<close>: the text of the group and what is left
  behind the match. The matcher takes the first way of matching \<open>g\<close> after which \<open>t\<close>
  matches.
\<close>

fun match_group :: "rx \<Rightarrow> str \<Rightarrow> str list \<Rightarrow> (str \<times> str) option" where
  "match_group t s [] = None"
| "match_group t s (r1 # rs) =
     (case ms t r1 of
        [] \<Rightarrow> match_group t s rs
      | rest # _ \<Rightarrow> Some (take (length s - length r1) s, rest))"

text \<open>
  \<^verbatim>\<open>re.split\<close> with a pattern of one group: the pieces between the matches, and after
  each piece the text of the group. \<open>acc\<close> is the piece collected so far. The boundary
  pattern consumes at least two characters, so every match moves the scan forward.
\<close>

fun re_split :: "rx \<Rightarrow> rx \<Rightarrow> str \<Rightarrow> str \<Rightarrow> str list" where
  "re_split g t acc [] = [acc]"
| "re_split g t acc (c # cs) =
     (case match_group t (c # cs) (ms g (c # cs)) of
        None \<Rightarrow> re_split g t (acc @ [c]) cs
      | Some (grp, rest) \<Rightarrow>
          if length rest \<le> length cs then acc # grp # re_split g t [] rest
          else re_split g t (acc @ [c]) cs)"

text \<open>
  The loop of \<^verbatim>\<open>_split_into_sentences\<close> takes \<^verbatim>\<open>parts[i] + parts[i + 1]\<close> for
  \<^verbatim>\<open>i = 0, 2, 4, ...\<close> while \<^verbatim>\<open>i < len(parts) - 1\<close>, that is, while two parts are left.
\<close>

fun join_pairs :: "tokenizer \<Rightarrow> str list \<Rightarrow> str list" where
  "join_pairs st (a # b # rest) =
     (let sentence = restore_protected_items st (strip (a @ b))
      in (if sentence \<noteq> [] then [sentence] else []) @ join_pairs st rest)"
| "join_pairs st rest = []"

definition last_part :: "tokenizer \<Rightarrow> str list \<Rightarrow> str list" where
  "last_part st parts =
     (if length parts mod 2 = 1 \<and> strip (last parts) \<noteq> []
      then (let lp = restore_protected_items st (strip (last parts))
            in if lp \<noteq> [] then [lp] else [])
      else [])"

definition split_into_sentences :: "tokenizer \<Rightarrow> str \<Rightarrow> str list" where
  "split_into_sentences st t =
     (let parts = re_split boundary_group boundary_tail [] t
      in join_pairs st parts @ last_part st parts)"

subsection \<open>Merging and the whole pipeline\<close>

definition word_count :: "str \<Rightarrow> nat" where
  "word_count s = length (split_ws s)"

definition merge_step :: "str list \<Rightarrow> str \<Rightarrow> str list" where
  "merge_step merged sentence =
     (if merged \<noteq> [] \<and> word_count sentence < 3
      then butlast merged @ [rstrip (last merged) @ [0x20] @ sentence]
      else merged @ [sentence])"

definition merge_short_sentences :: "str list \<Rightarrow> str list" where
  "merge_short_sentences sentences = foldl merge_step [] sentences"

text \<open>
  \<^verbatim>\<open>tokenize\<close> resets the store of the instance it is called on, so it takes the
  instance as it was left by earlier calls and returns it with the result.
\<close>

definition tokenize :: "tokenizer \<Rightarrow> str \<Rightarrow> str list \<times> tokenizer" where
  "tokenize st t =
     (let st0 = st\<lparr>protected_items := []\<rparr>;
          (protected_text, st1) = protect_special_patterns st0 t;
          raw_sentences = split_into_sentences st1 protected_text;
          final_sentences = merge_short_sentences raw_sentences
      in (final_sentences, st1))"

definition gujarati_sentence_tokenizer :: "str \<Rightarrow> str list" where
  "gujarati_sentence_tokenizer t = fst (tokenize new_tokenizer t)"

subsection \<open>The merger as the specification words it\<close>

text \<open>
  Section 4.5 of the specification: starting from an empty accepted list, each sentence
  is examined in order; if the accepted list is non-empty and the sentence has fewer than
  3 words, it is appended, joined by a single space, to the last accepted sentence,
  replacing it in place; otherwise it becomes a new entry.
\<close>

fun merger_spec :: "str list \<Rightarrow> str list \<Rightarrow> str list" where
  "merger_spec accepted [] = accepted"
| "merger_spec accepted (s # rest) =
     (if accepted \<noteq> [] \<and> word_count s < 3
      then merger_spec (butlast accepted @ [last accepted @ [0x20] @ s]) rest
      else merger_spec (accepted @ [s]) rest)"

subsection \<open>Predicates used in the proofs\<close>

text \<open>
  What the merger keeps true of its accepted list: no entry is empty, and every entry
  behind the first has at least three words.
\<close>

definition merged_ok :: "str list \<Rightarrow> bool" where
  "merged_ok acc \<longleftrightarrow>
     list_all (\<lambda>s. s \<noteq> []) acc \<and> list_all (\<lambda>s. 3 \<le> word_count s) (tl acc)"

text \<open>
  The white space of \<open>is_space\<close> as ranges, and two lists of ranges that have no code
  point in common.
\<close>

definition space_ranges :: "(cp \<times> cp) list" where
  "space_ranges =
    [(0x09, 0x0D), (0x1C, 0x20), (0x85, 0x85), (0xA0, 0xA0), (0x1680, 0x1680),
     (0x2000, 0x200A), (0x2028, 0x2028), (0x2029, 0x2029), (0x202F, 0x202F),
     (0x205F, 0x205F), (0x3000, 0x3000)]"

definition apart :: "(cp \<times> cp) list \<Rightarrow> (cp \<times> cp) list \<Rightarrow> bool" where
  "apart rs ss \<longleftrightarrow> list_all (\<lambda>(lo, hi). list_all (\<lambda>(a, b). hi < a \<or> b < lo) ss) rs"

text \<open>A text that is not empty and does not end in white space.\<close>

definition no_trail :: "str \<Rightarrow> bool" where
  "no_trail s \<longleftrightarrow> s \<noteq> [] \<and> \<not> is_space (last s)"

text \<open>The candidates that \<^verbatim>\<open>tokenize\<close> hands to the merger.\<close>

definition raw_sentences :: "str \<Rightarrow> str list" where
  "raw_sentences t =
     (let (protected_text, st1) = protect_special_patterns new_tokenizer t
      in split_into_sentences st1 protected_text)"



text \<open>
  Three facts about a pattern that can be read off its syntax: every match consumes a
  character (\<open>consuming\<close>); every match contains a character with the property \<open>P\<close>
  (\<open>needs\<close>); every match ends in a character with the property \<open>P\<close> (\<open>ends_in\<close>).
  \<open>ends_with P s r'\<close> says that \<open>r'\<close> is what is left of \<open>s\<close> behind a non-empty
  prefix whose last character has the property \<open>P\<close>.
\<close>

fun consuming :: "rx \<Rightarrow> bool" where
  "consuming Eps = False"
| "consuming (One cs) = True"
| "consuming (NotOne cs) = True"
| "consuming (Seq a b) = (consuming a \<or> consuming b)"
| "consuming (Alt a b) = (consuming a \<and> consuming b)"
| "consuming (Rep lo hi a) = (0 < lo \<and> consuming a)"


fun ends_in :: "(cp \<Rightarrow> bool) \<Rightarrow> rx \<Rightarrow> bool" where
  "ends_in P Eps = False"
| "ends_in P (One cs) = (\<forall>c. cset_has cs c \<longrightarrow> P c)"
| "ends_in P (NotOne cs) = (\<forall>c. cset_has cs c \<or> P c)"
| "ends_in P (Seq a b) = ends_in P b"
| "ends_in P (Alt a b) = (ends_in P a \<and> ends_in P b)"
| "ends_in P (Rep lo hi a) = (0 < lo \<and> ends_in P a)"

definition ends_with :: "(cp \<Rightarrow> bool) \<Rightarrow> str \<Rightarrow> str \<Rightarrow> bool" where
  "ends_with P s r' \<longleftrightarrow> (\<exists>u. s = u @ r' \<and> u \<noteq> [] \<and> P (last u))"




definition absent :: "nat \<Rightarrow> str \<Rightarrow> bool" where
  "absent k z \<longleftrightarrow> (\<forall>q. suffix q z \<longrightarrow> \<not> prefix (placeholder k) q)"

section \<open>Running the model\<close>

text \<open>
  Rules with which the simplifier runs the definitions on a concrete text: the
  repetition bound given as a numeral, and the definitions to unfold.
\<close>

lemma rep_numeral [simp]:
  "rep m lo (numeral k) s =
     concat (map (rep m (lo - 1) (pred_numeral k)) (m s)) @ (if lo = 0 then [s] else [])"
  by (simp add: numeral_eq_Suc)

lemmas pattern_defs =
  url_pattern_def email_pattern_def ellipsis_pattern_def num_dot_pattern_def
  guj_matra_dot_pattern_def date_pattern_def abbr_pattern_def abbreviations_def months_def
  boundary_group_def boundary_tail_def dot_def chr_def Plus_def Star_def Opt_def lit_def
  ustr_def is_space_def is_digit_def is_alnum_def is_word_def

lemmas pipeline_defs =
  gujarati_sentence_tokenizer_def tokenize_def new_tokenizer_def
  protect_special_patterns_def split_into_sentences_def last_part_def
  restore_protected_items_def merge_short_sentences_def merge_step_def word_count_def
  split_ws_def strip_def lstrip_def rstrip_def create_placeholder_def placeholder_def
  replace_def Let_def str_nat.simps

section \<open>What a match leaves\<close>

text \<open>
  What is left behind a match is a suffix of the text, and a shorter one when the
  pattern consumes: so the scan of \<^verbatim>\<open>re.sub\<close> and \<^verbatim>\<open>re.split\<close> moves forward at
  every match of a pattern of the program.
\<close>

lemma rep_suffix:
  assumes m: "\<And>s r'. r' \<in> set (m s) \<Longrightarrow> suffix r' s"
  shows "r' \<in> set (rep m lo h s) \<Longrightarrow> suffix r' s"
proof (induction h arbitrary: lo s)
  case 0
  then show ?case by (simp split: if_splits)
next
  case (Suc h)
  from Suc.prems consider
    (more) s1 where "s1 \<in> set (m s)" "r' \<in> set (rep m (lo - 1) h s1)" | (stop) "r' = s"
    by (auto split: if_splits)
  then show ?case
  proof cases
    case more
    then show ?thesis
      using Suc.IH m suffix_order.trans by blast
  next
    case stop
    then show ?thesis by simp
  qed
qed

lemma ms_suffix: "r' \<in> set (ms r s) \<Longrightarrow> suffix r' s"
proof (induction r arbitrary: s r')
  case (Seq a b)
  then show ?case
    using suffix_order.trans by fastforce
next
  case (Rep lo hi a)
  then show ?case
    using rep_suffix [of "ms a"] by simp
qed (auto split: list.splits if_splits simp: suffix_Cons)

lemma rep_consuming:
  assumes suf: "\<And>s r'. r' \<in> set (m s) \<Longrightarrow> suffix r' s"
    and len: "\<And>s r'. r' \<in> set (m s) \<Longrightarrow> length r' < length s"
  shows "r' \<in> set (rep m lo h s) \<Longrightarrow> 0 < lo \<Longrightarrow> length r' < length s"
proof (induction h arbitrary: lo s)
  case 0
  then show ?case by simp
next
  case (Suc h)
  from Suc.prems obtain s1 where s1: "s1 \<in> set (m s)" "r' \<in> set (rep m (lo - 1) h s1)"
    by auto
  have "suffix r' s1"
    using suf s1(2) by (rule rep_suffix)
  then have "length r' \<le> length s1"
    by (rule suffix_length_le)
  then show ?case
    using len [OF s1(1)] by simp
qed

lemma ms_consuming: "consuming r \<Longrightarrow> r' \<in> set (ms r s) \<Longrightarrow> length r' < length s"
proof (induction r arbitrary: s r')
  case (Seq a b)
  from Seq.prems(2) obtain s1 where s1: "s1 \<in> set (ms a s)" "r' \<in> set (ms b s1)"
    by auto
  have le1: "length s1 \<le> length s" and le2: "length r' \<le> length s1"
    using s1 ms_suffix suffix_length_le by blast+
  from Seq.prems(1) consider "consuming a" | "consuming b"
    by auto
  then show ?case
  proof cases
    case 1
    then show ?thesis using Seq.IH(1) s1(1) le2 by fastforce
  next
    case 2
    then show ?thesis using Seq.IH(2) s1(2) le1 by fastforce
  qed
next
  case (Rep lo hi a)
  then show ?case
    using rep_consuming [of "ms a"] ms_suffix by simp
qed (auto split: list.splits if_splits)





lemma patterns_consume:
  "consuming ellipsis_pattern" "consuming url_pattern" "consuming email_pattern"
  "consuming date_pattern" "consuming abbr_pattern" "consuming num_dot_pattern"
  "consuming guj_matra_dot_pattern" "consuming boundary_group"
  by (simp_all add: pattern_defs)

section \<open>Placeholders\<close>



lemma placeholder_ends:
  "placeholder k \<noteq> []" "hd (placeholder k) = 0x5F" "last (placeholder k) = 0x5F"
  by (simp_all add: placeholder_def ustr_def)

section \<open>The URL example\<close>

lemma url_example_protect:
  "protect_special_patterns new_tokenizer
     (ustr ''Visit https://example.com/page.html today. Thanks.'') =
   (ustr ''Visit __PROTECTED_0__ today. Thanks.'',
    \<lparr>protected_items = [ustr ''https://example.com/page.html'']\<rparr>)"
  by (simp add: pattern_defs pipeline_defs)

lemma url_example_split:
  "split_into_sentences \<lparr>protected_items = [ustr ''https://example.com/page.html'']\<rparr>
     (ustr ''Visit __PROTECTED_0__ today. Thanks.'') =
   [ustr ''Visit https://example.com/page.html today.'', ustr ''Thanks.'']"
  by (simp add: pattern_defs pipeline_defs)

lemma url_example_merge:
  "merge_short_sentences
     [ustr ''Visit https://example.com/page.html today.'', ustr ''Thanks.''] =
   [ustr ''Visit https://example.com/page.html today. Thanks.'']"
  by (simp add: pattern_defs pipeline_defs)

lemma url_example_tokenize:
  "gujarati_sentence_tokenizer (ustr ''Visit https://example.com/page.html today. Thanks.'') =
   [ustr ''Visit https://example.com/page.html today. Thanks.'']"
proof -
  have "tokenize new_tokenizer (ustr ''Visit https://example.com/page.html today. Thanks.'') =
        ([ustr ''Visit https://example.com/page.html today. Thanks.''],
         \<lparr>protected_items = [ustr ''https://example.com/page.html'']\<rparr>)"
    unfolding tokenize_def
    by (simp only: Let_def new_tokenizer_def tokenizer.simps
          url_example_protect [unfolded new_tokenizer_def] prod.case
          url_example_split url_example_merge)
  then show ?thesis
    by (simp add: gujarati_sentence_tokenizer_def)
qed

text \<open>
  Claim C1, as stated: \<^verbatim>\<open>tokenize("Visit https://example.com/page.html today. Thanks.")\<close>
  returns exactly two sentences. It does not: the result has one sentence.
\<close>

theorem url_example_not_two_sentences:
  "length (gujarati_sentence_tokenizer
     (ustr ''Visit https://example.com/page.html today. Thanks.'')) \<noteq> 2"
  by (simp add: url_example_tokenize)

text \<open>
  Claim C1, amended: the URL is protected as one item, so that its dots are no boundary
  and the splitter yields two candidates, the first with the URL intact. The second
  candidate, \<^verbatim>\<open>Thanks.\<close>, has fewer than three words and is merged into the first, so
  that \<^verbatim>\<open>tokenize\<close> returns one sentence, the whole input.
\<close>

theorem url_example_one_sentence:
  "protect_special_patterns new_tokenizer
     (ustr ''Visit https://example.com/page.html today. Thanks.'') =
   (ustr ''Visit __PROTECTED_0__ today. Thanks.'',
    \<lparr>protected_items = [ustr ''https://example.com/page.html'']\<rparr>) \<and>
   split_into_sentences \<lparr>protected_items = [ustr ''https://example.com/page.html'']\<rparr>
     (ustr ''Visit __PROTECTED_0__ today. Thanks.'') =
   [ustr ''Visit https://example.com/page.html today.'', ustr ''Thanks.''] \<and>
   gujarati_sentence_tokenizer (ustr ''Visit https://example.com/page.html today. Thanks.'') =
   [ustr ''Visit https://example.com/page.html today. Thanks.'']"
  using url_example_protect url_example_split url_example_tokenize by blast

section \<open>Restoration\<close>

text \<open>
  Claim C2: for every input string, no placeholder of the form
  \<^verbatim>\<open>__PROTECTED_<index>__\<close> remains in a sentence returned by \<^verbatim>\<open>tokenize\<close>. The code
  breaks it on \<^verbatim>\<open>Visit http://example.com/a...b.html\<close>: the ellipsis becomes item 0,
  the URL pattern then takes the text with the placeholder of item 0 inside it as item 1,
  and the restoration, going through the items from 0 upwards, never replaces the
  placeholder that item 1 brings back.
\<close>

theorem placeholder_left_in_sentence:
  "gujarati_sentence_tokenizer (ustr ''Visit http://example.com/a...b.html'') =
   [ustr ''Visit http://example.com/a__PROTECTED_0__b.html'']"
  by (simp add: pattern_defs pipeline_defs)

text \<open>
  Claim C3: restoring what the protection returned gives back the original text. The
  code breaks it on \<^verbatim>\<open>Hmm...me@x.org\<close>, in the same way: the e-mail pattern takes the
  placeholder of the ellipsis into its own item.
\<close>

theorem protect_restore_not_identity:
  "(case protect_special_patterns new_tokenizer (ustr ''Hmm...me@x.org'') of
      (p, st) \<Rightarrow> (p, protected_items st, restore_protected_items st p)) =
   (ustr ''__PROTECTED_1__'',
    [ustr ''...'', ustr ''Hmm__PROTECTED_0__me@x.org''],
    ustr ''Hmm__PROTECTED_0__me@x.org'')"
  by (simp add: pattern_defs pipeline_defs)

section \<open>The e-mail pattern\<close>

text \<open>
  Claim C7: an e-mail address such as \<^verbatim>\<open>user@example.com\<close> is replaced by a
  placeholder. The code leaves it as it is and stores nothing: in
  \<^verbatim>\<open>[\w\.-]+@(\w\.)+\w+\<close> a domain label before a dot is one character,
  \<^verbatim>\<open>(\w\.)\<close>, so that \<^verbatim>\<open>user@e.com\<close> is protected and \<^verbatim>\<open>user@example.com\<close> is not.
\<close>

theorem email_not_protected:
  "protect_special_patterns new_tokenizer (ustr ''user@example.com'') =
     (ustr ''user@example.com'', \<lparr>protected_items = []\<rparr>) \<and>
   protect_special_patterns new_tokenizer (ustr ''user@e.com'') =
     (ustr ''__PROTECTED_0__'', \<lparr>protected_items = [ustr ''user@e.com'']\<rparr>)"
  by (simp add: pattern_defs pipeline_defs)

section \<open>The state of the instance\<close>

lemma tokenizer_reset: "st\<lparr>protected_items := []\<rparr> = new_tokenizer"
  by (cases st) (simp add: new_tokenizer_def)

text \<open>
  Claim C9: \<^verbatim>\<open>tokenize\<close> is deterministic and stateless across calls. The result and the
  store it leaves are those of a fresh instance, whatever store the instance had before
  the call; in particular a second call on the same instance, which starts from the store
  the first call left, returns the same sentences.
\<close>

theorem tokenize_stateless:
  "tokenize st t = tokenize new_tokenizer t \<and>
   fst (tokenize (snd (tokenize st t)) t) = fst (tokenize st t) \<and>
   fst (tokenize st t) = gujarati_sentence_tokenizer t"
  by (simp add: tokenize_def tokenizer_reset gujarati_sentence_tokenizer_def)

section \<open>The merger\<close>

subsection \<open>Word counts\<close>

lemma split_acc_space_mid:
  "is_space c \<Longrightarrow> split_acc (x @ c # y) cur = split_acc x cur @ split_acc y []"
  by (induction x arbitrary: cur) auto

lemma split_acc_spaces:
  "\<forall>c\<in>set w. is_space c \<Longrightarrow> split_acc w cur = (if cur = [] then [] else [cur])"
  by (induction w arbitrary: cur) auto

lemma split_acc_trailing_spaces:
  "\<forall>c\<in>set w. is_space c \<Longrightarrow> split_acc (x @ w) cur = split_acc x cur"
  by (induction x arbitrary: cur) (auto simp: split_acc_spaces)

lemma rstrip_decomp: "rstrip a @ rev (takeWhile is_space (rev a)) = a"
proof -
  have "rev (takeWhile is_space (rev a) @ dropWhile is_space (rev a)) = a"
    by simp
  then show ?thesis
    unfolding rstrip_def by (simp only: rev_append)
qed

lemma word_count_rstrip: "word_count (rstrip a) = word_count a"
proof -
  have "\<forall>c\<in>set (rev (takeWhile is_space (rev a))). is_space c"
    by (auto dest: set_takeWhileD)
  then have "split_acc (rstrip a @ rev (takeWhile is_space (rev a))) [] =
             split_acc (rstrip a) []"
    by (rule split_acc_trailing_spaces)
  then show ?thesis
    by (simp add: word_count_def split_ws_def rstrip_decomp)
qed

lemma space_is_space: "is_space 0x20"
  by (simp add: is_space_def)

lemma word_count_joined:
  "word_count (rstrip a @ [0x20] @ s) = word_count a + word_count s"
proof -
  have "split_acc (rstrip a @ 0x20 # s) [] = split_acc (rstrip a) [] @ split_acc s []"
    using space_is_space by (rule split_acc_space_mid)
  then show ?thesis
    using word_count_rstrip [of a] by (simp add: word_count_def split_ws_def)
qed

subsection \<open>What the merger keeps true\<close>

lemma merge_step_ok:
  assumes "merged_ok acc" and "s \<noteq> []"
  shows "merged_ok (merge_step acc s)"
proof (cases "acc \<noteq> [] \<and> word_count s < 3")
  case True
  then obtain a as where acc: "acc = as @ [a]"
    by (metis rev_exhaust)
  show ?thesis
  proof (cases as)
    case Nil
    with acc True show ?thesis
      by (simp add: merge_step_def merged_ok_def)
  next
    case (Cons b bs)
    with acc assms have "3 \<le> word_count a" and "list_all (\<lambda>s. s \<noteq> []) as"
      and "list_all (\<lambda>s. 3 \<le> word_count s) bs"
      by (simp_all add: merged_ok_def)
    with acc Cons True show ?thesis
      using word_count_joined [of a s] by (simp add: merge_step_def merged_ok_def)
  qed
next
  case False
  show ?thesis
  proof (cases acc)
    case Nil
    with assms show ?thesis by (simp add: merge_step_def merged_ok_def)
  next
    case (Cons b bs)
    with False assms show ?thesis
      by (simp add: merge_step_def merged_ok_def)
  qed
qed

lemma foldl_merge_ok:
  "merged_ok acc \<Longrightarrow> list_all (\<lambda>s. s \<noteq> []) ss \<Longrightarrow> merged_ok (foldl merge_step acc ss)"
  by (induction ss arbitrary: acc) (simp_all add: merge_step_ok)

lemma join_pairs_nonempty: "list_all (\<lambda>s. s \<noteq> []) (join_pairs st parts)"
  by (induction st parts rule: join_pairs.induct) (simp_all add: Let_def)

lemma last_part_nonempty: "list_all (\<lambda>s. s \<noteq> []) (last_part st parts)"
  by (simp add: last_part_def Let_def)

lemma split_into_sentences_nonempty:
  "list_all (\<lambda>s. s \<noteq> []) (split_into_sentences st t)"
  by (simp add: split_into_sentences_def Let_def join_pairs_nonempty last_part_nonempty)

lemma tokenize_merged_ok: "merged_ok (fst (tokenize st t))"
proof -
  obtain p st1 where "protect_special_patterns (st\<lparr>protected_items := []\<rparr>) t = (p, st1)"
    by (cases "protect_special_patterns (st\<lparr>protected_items := []\<rparr>) t")
  then have "fst (tokenize st t) = foldl merge_step [] (split_into_sentences st1 p)"
    by (simp add: tokenize_def merge_short_sentences_def)
  moreover have "merged_ok []"
    by (simp add: merged_ok_def)
  ultimately show ?thesis
    using foldl_merge_ok split_into_sentences_nonempty by simp
qed

text \<open>
  Claim C10: in the list \<^verbatim>\<open>tokenize\<close> returns, every sentence is non-empty, and every
  sentence except possibly the first has at least 3 whitespace-delimited words.
\<close>

theorem tokenize_sentences_long_enough:
  "(\<forall>s\<in>set (fst (tokenize st t)). s \<noteq> []) \<and>
   (\<forall>s\<in>set (tl (fst (tokenize st t))). 3 \<le> word_count s)"
  using tokenize_merged_ok [of st t] by (simp add: merged_ok_def list_all_iff)

lemma two_sentences_example:
  "fst (tokenize new_tokenizer (ustr ''One two three. Four five six.'')) =
   [ustr ''One two three.'', ustr ''Four five six.'']"
  by (simp add: pattern_defs pipeline_defs)

theorem tokenize_sentences_long_enough_witness:
  "fst (tokenize new_tokenizer (ustr ''One two three. Four five six.'')) =
     [ustr ''One two three.'', ustr ''Four five six.''] \<and>
   ustr ''One two three.'' \<noteq> [] \<and> ustr ''Four five six.'' \<noteq> [] \<and>
   3 \<le> word_count (ustr ''Four five six.'')"
  using tokenize_sentences_long_enough
          [of new_tokenizer "ustr ''One two three. Four five six.''"]
  unfolding two_sentences_example by simp

subsection \<open>The merger and the specification\<close>

lemma rstrip_no_trail: "no_trail s \<Longrightarrow> rstrip s = s"
proof -
  assume "no_trail s"
  then obtain b where s: "s = b @ [last s]" and l: "\<not> is_space (last s)"
    unfolding no_trail_def by (metis append_butlast_last_id)
  have "rstrip (b @ [last s]) = b @ [last s]"
    using l by (simp add: rstrip_def)
  with s show ?thesis by simp
qed

lemma merge_step_spec:
  assumes "list_all no_trail acc" and "no_trail s"
  shows "merge_step acc s =
           (if acc \<noteq> [] \<and> word_count s < 3 then butlast acc @ [last acc @ [0x20] @ s]
            else acc @ [s])"
    and "list_all no_trail (merge_step acc s)"
proof -
  have last: "acc \<noteq> [] \<Longrightarrow> rstrip (last acc) = last acc"
    using assms(1) last_in_set [of acc] rstrip_no_trail unfolding list_all_iff by blast
  then show eq: "merge_step acc s =
           (if acc \<noteq> [] \<and> word_count s < 3 then butlast acc @ [last acc @ [0x20] @ s]
            else acc @ [s])"
    by (simp add: merge_step_def)
  have "list_all no_trail (butlast acc)"
    using assms(1) unfolding list_all_iff by (blast dest: in_set_butlastD)
  moreover have "no_trail (last acc @ [0x20] @ s)"
    using assms(2) by (simp add: no_trail_def)
  ultimately show "list_all no_trail (merge_step acc s)"
    unfolding eq using assms by simp
qed

lemma foldl_merge_spec:
  "list_all no_trail acc \<Longrightarrow> list_all no_trail ss \<Longrightarrow>
   foldl merge_step acc ss = merger_spec acc ss"
proof (induction ss arbitrary: acc)
  case Nil
  then show ?case by simp
next
  case (Cons s ss)
  then have s: "no_trail s" and ss: "list_all no_trail ss"
    by simp_all
  have "foldl merge_step (merge_step acc s) ss = merger_spec (merge_step acc s) ss"
    using merge_step_spec(2) [OF Cons.prems(1) s] ss by (rule Cons.IH)
  then show ?case
    using merge_step_spec(1) [OF Cons.prems(1) s] by simp
qed

subsection \<open>Candidates do not end in white space\<close>

lemma ends_with_trans: "suffix s1 s \<Longrightarrow> ends_with P s1 r' \<Longrightarrow> ends_with P s r'"
  by (auto simp: ends_with_def suffix_def)

lemma rep_ends:
  assumes suf: "\<And>s r'. r' \<in> set (m s) \<Longrightarrow> suffix r' s"
    and e: "\<And>s r'. r' \<in> set (m s) \<Longrightarrow> ends_with P s r'"
  shows "r' \<in> set (rep m lo h s) \<Longrightarrow> r' = s \<and> lo = 0 \<or> ends_with P s r'"
proof (induction h arbitrary: lo s)
  case 0
  then show ?case by (simp split: if_splits)
next
  case (Suc h)
  from Suc.prems consider
    (more) s1 where "s1 \<in> set (m s)" "r' \<in> set (rep m (lo - 1) h s1)" | (stop) "r' = s" "lo = 0"
    by (auto split: if_splits)
  then show ?case
  proof cases
    case more
    from Suc.IH [OF more(2)] show ?thesis
    proof
      assume "r' = s1 \<and> lo - 1 = 0"
      then show ?thesis using e [OF more(1)] by simp
    next
      assume "ends_with P s1 r'"
      then show ?thesis using suf [OF more(1)] ends_with_trans by blast
    qed
  next
    case stop
    then show ?thesis by simp
  qed
qed

lemma ms_ends_in: "ends_in P r \<Longrightarrow> r' \<in> set (ms r s) \<Longrightarrow> ends_with P s r'"
proof (induction r arbitrary: s r')
  case (Seq a b)
  from Seq.prems(2) obtain s1 where s1: "s1 \<in> set (ms a s)" "r' \<in> set (ms b s1)"
    by auto
  have "ends_with P s1 r'"
    using Seq.IH(2) Seq.prems(1) s1(2) by simp
  then show ?case
    using ms_suffix [OF s1(1)] ends_with_trans by blast
next
  case (Rep lo hi a)
  then have "r' = s \<and> lo = 0 \<or> ends_with P s r'"
    using rep_ends [of "ms a" P r' lo _ s] ms_suffix by simp
  with Rep.prems(1) show ?case by simp
next
  case (One cs)
  then show ?case
    by (cases s) (auto simp: ends_with_def split: if_splits)
next
  case (NotOne cs)
  then show ?case
    by (cases s) (auto simp: ends_with_def split: if_splits)
qed auto

lemma point_range: "a \<le> c \<and> c \<le> a \<longleftrightarrow> c = a" for a c :: nat
  by auto

lemma is_space_ranges: "is_space c \<longleftrightarrow> in_ranges space_ranges c"
  by (simp add: is_space_def space_ranges_def point_range)

lemma in_ranges_apart: "in_ranges rs c \<Longrightarrow> in_ranges ss c \<Longrightarrow> apart rs ss \<Longrightarrow> False"
proof (induction rs)
  case Nil
  then show ?case by simp
next
  case (Cons r rs)
  obtain lo hi where r: "r = (lo, hi)"
    by (cases r)
  have one: "in_ranges ss c \<Longrightarrow> list_all (\<lambda>(a, b). hi < a \<or> b < lo) ss \<Longrightarrow>
             lo \<le> c \<Longrightarrow> c \<le> hi \<Longrightarrow> False"
    by (induction ss) auto
  from Cons.prems r have "list_all (\<lambda>(a, b). hi < a \<or> b < lo) ss" and "apart rs ss"
    by (simp_all add: apart_def)
  with Cons r one show ?case
    by auto
qed

lemma alnum_apart_space: "apart alnum_ranges space_ranges"
  by (simp add: apart_def alnum_ranges_def space_ranges_def)

lemma decimal_apart_space: "apart decimal_ranges space_ranges"
  by (simp add: apart_def decimal_ranges_def space_ranges_def)

lemma word_not_space: "is_word c \<Longrightarrow> \<not> is_space c"
proof (cases "c < 0x80")
  case True
  assume "is_word c"
  with True show ?thesis
    by (auto simp: is_word_def is_alnum_def is_space_def)
next
  case False
  assume "is_word c"
  with False have "in_ranges alnum_ranges c"
    by (auto simp: is_word_def is_alnum_def)
  then show ?thesis
    using in_ranges_apart alnum_apart_space is_space_ranges by blast
qed

lemma digit_not_space: "is_digit c \<Longrightarrow> \<not> is_space c"
proof (cases "c < 0x80")
  case True
  assume "is_digit c"
  with True show ?thesis
    by (auto simp: is_digit_def is_space_def)
next
  case False
  assume "is_digit c"
  with False have "in_ranges decimal_ranges c"
    by (simp add: is_digit_def)
  then show ?thesis
    using in_ranges_apart decimal_apart_space is_space_ranges by blast
qed

lemma dot_not_space: "\<not> is_space 0x2E"
  by (simp add: is_space_def)

lemma patterns_end_in_no_space:
  "ends_in (\<lambda>c. \<not> is_space c) ellipsis_pattern"
  "ends_in (\<lambda>c. \<not> is_space c) url_pattern"
  "ends_in (\<lambda>c. \<not> is_space c) email_pattern"
  "ends_in (\<lambda>c. \<not> is_space c) date_pattern"
  "ends_in (\<lambda>c. \<not> is_space c) abbr_pattern"
  "ends_in (\<lambda>c. \<not> is_space c) num_dot_pattern"
  "ends_in (\<lambda>c. \<not> is_space c) guj_matra_dot_pattern"
  by (simp_all add: ellipsis_pattern_def url_pattern_def email_pattern_def date_pattern_def
      abbr_pattern_def num_dot_pattern_def guj_matra_dot_pattern_def abbreviations_def
      dot_def chr_def Plus_def lit_def ustr_def word_not_space digit_not_space dot_not_space)

lemma match_text_no_trail:
  assumes "ends_in (\<lambda>c. \<not> is_space c) r" and "rest \<in> set (ms r s)"
  shows "no_trail (take (length s - length rest) s)"
proof -
  from ms_ends_in [OF assms] obtain u where "s = u @ rest" "u \<noteq> []" "\<not> is_space (last u)"
    by (auto simp: ends_with_def)
  then show ?thesis
    by (simp add: no_trail_def)
qed

lemma re_sub_items_no_trail:
  "ends_in (\<lambda>c. \<not> is_space c) r \<Longrightarrow> list_all no_trail (protected_items st) \<Longrightarrow>
   list_all no_trail (protected_items (snd (re_sub r st t)))"
proof (induction r st t rule: re_sub.induct)
  case (1 r st)
  then show ?case by simp
next
  case (2 r st c cs)
  note r = "2.prems"(1)
  show ?case
  proof (cases "ms r (c # cs)")
    case Nil
    with 2 show ?thesis
      by (simp add: split_beta)
  next
    case (Cons rest more)
    show ?thesis
    proof (cases "length rest \<le> length cs")
      case True
      have "rest \<in> set (ms r (c # cs))"
        unfolding Cons by simp
      with r have "no_trail (take (length (c # cs) - length rest) (c # cs))"
        by (rule match_text_no_trail)
      then have item: "no_trail (take (Suc (length cs) - length rest) (c # cs))"
        by simp
      obtain ph' st1 where cp:
        "create_placeholder st (take (Suc (length cs) - length rest) (c # cs)) = (ph', st1)"
        by (cases "create_placeholder st (take (Suc (length cs) - length rest) (c # cs))")
      then have st1: "list_all no_trail (protected_items st1)"
        using item "2.prems"(2) by (auto simp: create_placeholder_def Let_def)
      have "list_all no_trail (protected_items (snd (re_sub r st1 rest)))"
        using "2.IH"(2) [OF Cons True cp [symmetric] refl r st1] .
      with Cons True cp show ?thesis
        by (simp add: split_beta)
    next
      case False
      with 2 Cons show ?thesis
        by (simp add: split_beta)
    qed
  qed
qed

lemma protect_items_no_trail:
  "list_all no_trail (protected_items st) \<Longrightarrow>
   list_all no_trail (protected_items (snd (protect_special_patterns st t)))"
  unfolding protect_special_patterns_def split_beta Let_def snd_conv
  by (intro re_sub_items_no_trail patterns_end_in_no_space)

lemma repl_no_trail:
  "no_trail new \<Longrightarrow> no_trail z \<Longrightarrow> no_trail (repl old new z)"
proof (induction old new z rule: repl.induct)
  case (1 old new)
  then show ?case by (simp add: no_trail_def)
next
  case (2 old new c cs)
  show ?case
  proof (cases "old \<noteq> [] \<and> take (length old) (c # cs) = old")
    case found: True
    then have eq: "repl old new (c # cs) = new @ repl old new (drop (length old) (c # cs))"
      by simp
    show ?thesis
    proof (cases "drop (length old) (c # cs) = []")
      case True
      then show ?thesis
        unfolding eq using "2.prems"(1) by (simp only: repl.simps append_Nil2)
    next
      case False
      then have "no_trail (drop (length old) (c # cs))"
        using "2.prems"(2) by (simp add: no_trail_def last_drop)
      with "2.IH"(1) [OF found "2.prems"(1)]
      have "no_trail (repl old new (drop (length old) (c # cs)))"
        by simp
      then show ?thesis
        unfolding eq by (simp add: no_trail_def)
    qed
  next
    case absent: False
    then have eq: "repl old new (c # cs) = c # repl old new cs"
      by auto
    show ?thesis
    proof (cases "cs = []")
      case True
      then show ?thesis
        unfolding eq using "2.prems"(2) by (simp add: no_trail_def)
    next
      case False
      then have "no_trail cs"
        using "2.prems"(2) by (simp add: no_trail_def)
      with "2.IH"(2) [OF absent "2.prems"(1)] have "no_trail (repl old new cs)"
        by simp
      then show ?thesis
        unfolding eq by (simp add: no_trail_def)
    qed
  qed
qed

lemma replace_placeholder: "replace (placeholder k) new z = repl (placeholder k) new z"
  by (simp add: replace_def placeholder_ends)

lemma restore_from_no_trail:
  "list_all no_trail items \<Longrightarrow> no_trail z \<Longrightarrow> no_trail (restore_from k items z)"
  by (induction items arbitrary: k z) (simp_all add: replace_placeholder repl_no_trail)

lemma restore_from_Nil: "restore_from k items [] = []"
  by (induction items arbitrary: k) (simp_all add: replace_placeholder)

lemma strip_no_trail: "strip x \<noteq> [] \<Longrightarrow> no_trail (strip x)"
proof -
  assume ne: "strip x \<noteq> []"
  then have "dropWhile is_space (rev (lstrip x)) \<noteq> []"
    by (simp add: strip_def rstrip_def)
  then have "\<not> is_space (hd (dropWhile is_space (rev (lstrip x))))"
    by (rule hd_dropWhile)
  then have "\<not> is_space (last (strip x))"
    using ne by (simp add: strip_def rstrip_def last_rev)
  with ne show ?thesis
    by (simp add: no_trail_def)
qed

lemma restored_candidate:
  assumes "list_all no_trail (protected_items st)"
    and "restore_protected_items st (strip x) \<noteq> []"
  shows "no_trail (restore_protected_items st (strip x))"
proof -
  have "strip x \<noteq> []"
    using assms(2) by (auto simp: restore_protected_items_def restore_from_Nil)
  then have "no_trail (strip x)"
    by (rule strip_no_trail)
  with assms(1) show ?thesis
    by (simp add: restore_protected_items_def restore_from_no_trail)
qed

lemma join_pairs_no_trail:
  "list_all no_trail (protected_items st) \<Longrightarrow> list_all no_trail (join_pairs st parts)"
  by (induction st parts rule: join_pairs.induct) (simp_all add: Let_def restored_candidate)

lemma last_part_no_trail:
  "list_all no_trail (protected_items st) \<Longrightarrow> list_all no_trail (last_part st parts)"
  by (simp add: last_part_def Let_def restored_candidate)

lemma split_into_sentences_no_trail:
  "list_all no_trail (protected_items st) \<Longrightarrow> list_all no_trail (split_into_sentences st t)"
  by (simp add: split_into_sentences_def Let_def join_pairs_no_trail last_part_no_trail)

lemma tokenize_raw:
  "fst (tokenize st t) = merge_short_sentences (raw_sentences t)"
  by (cases st) (simp add: tokenize_def raw_sentences_def split_beta new_tokenizer_def Let_def)

lemma raw_sentences_no_trail: "list_all no_trail (raw_sentences t)"
  unfolding raw_sentences_def split_beta Let_def
  by (intro split_into_sentences_no_trail protect_items_no_trail) (simp add: new_tokenizer_def)

lemma tokenize_merger_spec: "fst (tokenize st t) = merger_spec [] (raw_sentences t)"
  unfolding tokenize_raw merge_short_sentences_def
  by (intro foldl_merge_spec raw_sentences_no_trail) simp

lemma hi_example: "gujarati_sentence_tokenizer (ustr ''Hi.'') = [ustr ''Hi.'']"
  by (simp add: pattern_defs pipeline_defs)

text \<open>
  Claim C5: the merger processes the candidates in order; a candidate is appended with a
  single space to the last accepted sentence exactly when the accepted list is non-empty
  and the candidate has fewer than 3 words, and otherwise starts a new entry; and
  \<^verbatim>\<open>tokenize("Hi.")\<close> returns \<^verbatim>\<open>["Hi."]\<close>. The code trims the last accepted sentence
  on the right before it appends; no candidate of the splitter and no accepted sentence
  ends in white space, so that on them the code is the merger of the specification:
  for every list of such candidates, and for the candidates of every input.
\<close>

theorem merger_follows_policy:
  "(list_all no_trail ss \<longrightarrow> merge_short_sentences ss = merger_spec [] ss) \<and>
   fst (tokenize st t) = merger_spec [] (raw_sentences t) \<and>
   gujarati_sentence_tokenizer (ustr ''Hi.'') = [ustr ''Hi.'']"
  using foldl_merge_spec [of "[]" ss] tokenize_merger_spec [of st t] hi_example
  by (simp add: merge_short_sentences_def)

lemma merge_example:
  "merge_short_sentences [ustr ''One two three.'', ustr ''Hi.''] =
   [ustr ''One two three. Hi.'']"
  by (simp add: pattern_defs pipeline_defs)

theorem merger_follows_policy_witness:
  "list_all no_trail [ustr ''One two three.'', ustr ''Hi.''] \<and>
   merger_spec [] [ustr ''One two three.'', ustr ''Hi.''] = [ustr ''One two three. Hi.'']"
  using merger_follows_policy [of "[ustr ''One two three.'', ustr ''Hi.'']"]
  unfolding merge_example by (simp add: no_trail_def ustr_def is_space_def)

section \<open>Characters of the result\<close>






















section \<open>Digits followed by a dot\<close>























section \<open>Inputs in which no pattern matches\<close>





lemma merge_single: "merge_short_sentences [s] = [s]"
  by (simp add: merge_short_sentences_def merge_step_def)




section \<open>Restoring after the date pattern\<close>








































section \<open>Inputs without boundary punctuation\<close>





end
